theory Spec2Isabelle
  imports Complex_Main "HOL-Library.Log_Nat"
begin

section \<open>JavaScript values used by the invoice and login actions\<close>

text \<open>
  A JavaScript string is modelled as a HOL \<open>string\<close>; one \<open>char\<close> stands for one
  code unit, so \<open>length\<close> is the \<open>.length\<close> that zod's \<open>min(6)\<close> reads. Only code
  units below 256 are represented.

  A JavaScript number is an IEEE 754 binary64 value. The finite ones are rationals,
  kept exactly in \<open>Fin\<close>; every arithmetic result is rounded to the nearest double,
  ties to even, by \<open>round_to_double\<close>. The sign of zero is not kept: \<open>-0\<close> and \<open>+0\<close>
  compare alike in every test the actions make (\<open>-0 <= 0\<close> holds, so a negative zero
  amount is rejected like zero).
\<close>

datatype jsnum = NaN | PosInf | NegInf | Fin rat

text \<open>Round a rational to the nearest integer, ties to the even one.\<close>

definition round_half_even :: "rat \<Rightarrow> int" where
  "round_half_even q =
     (let f = \<lfloor>q\<rfloor>; r = q - of_int f in
      if r < 1 / 2 then f
      else if 1 / 2 < r then f + 1
      else if even f then f else f + 1)"

text \<open>The binary exponent of a positive rational: \<open>2 powi (ilog2 q) \<le> q < 2 powi (ilog2 q + 1)\<close>.\<close>

definition ilog2 :: "rat \<Rightarrow> int" where
  "ilog2 q =
     (let (a, b) = quotient_of q;
          e = bitlen a - bitlen b
      in if 2 powi e \<le> q then e else e - 1)"

text \<open>
  Rounding of a positive rational to binary64: 53 significant bits for a normal
  result, a fixed spacing of \<open>2 powi (-1074)\<close> below \<open>2 powi (-1022)\<close> (subnormals), and
  overflow to infinity once the rounded value reaches \<open>2 powi 1024\<close>, that is, once
  its binary exponent reaches 1024.
\<close>

definition round_pos :: "rat \<Rightarrow> jsnum" where
  "round_pos q =
     (let ulp = 2 powi (max (ilog2 q) (- 1022) - 52);
          v = of_int (round_half_even (q / ulp)) * ulp
      in if 1024 \<le> ilog2 v then PosInf else Fin v)"

fun negate :: "jsnum \<Rightarrow> jsnum" where
  "negate NaN = NaN"
| "negate PosInf = NegInf"
| "negate NegInf = PosInf"
| "negate (Fin q) = Fin (- q)"

definition round_to_double :: "rat \<Rightarrow> jsnum" where
  "round_to_double q =
     (if q = 0 then Fin 0
      else if 0 < q then round_pos q
      else negate (round_pos (- q)))"

text \<open>The sign of a number as JavaScript's multiplication uses it: -1, 0 or 1.\<close>

fun sign_of :: "jsnum \<Rightarrow> int" where
  "sign_of NaN = 0"
| "sign_of PosInf = 1"
| "sign_of NegInf = - 1"
| "sign_of (Fin q) = (if q < 0 then - 1 else if q = 0 then 0 else 1)"

text \<open>\<open>x * y\<close> on numbers (\<open>Number::multiply\<close>).\<close>

fun times_js :: "jsnum \<Rightarrow> jsnum \<Rightarrow> jsnum" where
  "times_js NaN _ = NaN"
| "times_js _ NaN = NaN"
| "times_js (Fin a) (Fin b) = round_to_double (a * b)"
| "times_js x y =
     (let s = sign_of x * sign_of y in
      if s = 0 then NaN else if 0 < s then PosInf else NegInf)"

text \<open>\<open>x <= y\<close> on numbers: false as soon as one side is \<open>NaN\<close>.\<close>

fun le_js :: "jsnum \<Rightarrow> jsnum \<Rightarrow> bool" where
  "le_js NaN _ = False"
| "le_js _ NaN = False"
| "le_js NegInf _ = True"
| "le_js _ PosInf = True"
| "le_js PosInf _ = False"
| "le_js _ NegInf = False"
| "le_js (Fin a) (Fin b) = (a \<le> b)"

text \<open>\<open>Number.isInteger\<close>, and the property the invoice table's amount should have.\<close>

fun is_integer :: "jsnum \<Rightarrow> bool" where
  "is_integer (Fin q) = (q = of_int \<lfloor>q\<rfloor>)"
| "is_integer _ = False"

fun is_positive :: "jsnum \<Rightarrow> bool" where
  "is_positive (Fin q) = (0 < q)"
| "is_positive PosInf = True"
| "is_positive _ = False"

definition is_positive_integer :: "jsnum \<Rightarrow> bool" where
  "is_positive_integer x = (is_positive x \<and> is_integer x)"

text \<open>
  No finite double lies strictly between zero and the smallest subnormal,
  \<open>2 powi (-1074)\<close>, in magnitude.
\<close>

fun min_magnitude :: "jsnum \<Rightarrow> bool" where
  "min_magnitude (Fin q) = (q = 0 \<or> 2 powi (- 1074) \<le> \<bar>q\<bar>)"
| "min_magnitude _ = True"

subsection \<open>\<open>Number(string)\<close>: the StringToNumber conversion\<close>

text \<open>White space and line terminators that \<open>Number\<close> strips from both ends.\<close>

definition is_space :: "char \<Rightarrow> bool" where
  "is_space c = (of_char c \<in> set [9, 10, 11, 12, 13, 32, 160 :: nat])"

definition trim :: "string \<Rightarrow> string" where
  "trim s = rev (dropWhile is_space (rev (dropWhile is_space s)))"

definition digit_of :: "char \<Rightarrow> nat option" where
  "digit_of c =
     (let n = of_char c :: nat in
      if 48 \<le> n \<and> n \<le> 57 then Some (n - 48)
      else if 97 \<le> n \<and> n \<le> 102 then Some (n - 87)
      else if 65 \<le> n \<and> n \<le> 70 then Some (n - 55)
      else None)"

definition is_digit :: "nat \<Rightarrow> char \<Rightarrow> bool" where
  "is_digit base c = (case digit_of c of None \<Rightarrow> False | Some d \<Rightarrow> d < base)"

text \<open>The value of a digit string in a base, most significant digit first.\<close>

fun digits_value :: "nat \<Rightarrow> nat \<Rightarrow> string \<Rightarrow> nat" where
  "digits_value base acc [] = acc"
| "digits_value base acc (c # cs) =
     digits_value base (acc * base + (case digit_of c of None \<Rightarrow> 0 | Some d \<Rightarrow> d)) cs"

text \<open>\<open>0x\<close>, \<open>0o\<close> and \<open>0b\<close> literals (either case of the letter), unsigned.\<close>

definition non_decimal :: "string \<Rightarrow> nat option" where
  "non_decimal s =
     (case s of
        z # p # ds \<Rightarrow>
          (let base =
             (if p = CHR ''x'' \<or> p = CHR ''X'' then 16
              else if p = CHR ''o'' \<or> p = CHR ''O'' then 8
              else if p = CHR ''b'' \<or> p = CHR ''B'' then 2 else (0::nat))
           in if z = CHR ''0'' \<and> base \<noteq> 0 \<and> ds \<noteq> [] \<and> list_all (is_digit base) ds
              then Some (digits_value base 0 ds) else None)
      | _ \<Rightarrow> None)"

text \<open>The exponent part: empty, or \<open>e\<close>/\<open>E\<close>, an optional sign and at least one digit.\<close>

definition exponent_part :: "string \<Rightarrow> int option" where
  "exponent_part s =
     (case s of
        [] \<Rightarrow> Some 0
      | c # r \<Rightarrow>
          if c = CHR ''e'' \<or> c = CHR ''E'' then
            (let neg = (case r of [] \<Rightarrow> False | d # _ \<Rightarrow> d = CHR ''-'');
                 ds = (case r of [] \<Rightarrow> []
                       | d # t \<Rightarrow> if d = CHR ''+'' \<or> d = CHR ''-'' then t else r)
             in if ds \<noteq> [] \<and> list_all (is_digit 10) ds
                then Some (if neg then - int (digits_value 10 0 ds) else int (digits_value 10 0 ds))
                else None)
          else None)"

text \<open>
  An unsigned decimal literal: \<open>Infinity\<close>, or digits with an optional fraction and
  exponent, at least one digit before or after the point. The literal's exact value is
  rounded to a double once. The three steps read the integer digits, the fraction
  after a point, and the exponent.
\<close>

definition decimal_value :: "nat \<Rightarrow> int \<Rightarrow> rat" where
  \<comment> \<open>the exact value \<open>m * 10 powi e\<close> of the digits \<open>m\<close> scaled by the decimal exponent \<open>e\<close>\<close>
  "decimal_value m e =
     (if 0 \<le> e then of_int (int m * 10 ^ nat e)
      else of_int (int m) / of_int (10 ^ nat (- e)))"

definition after_fraction :: "string \<Rightarrow> string \<Rightarrow> string \<Rightarrow> jsnum option" where
  "after_fraction ip fp r =
     (if ip = [] \<and> fp = [] then None
      else case exponent_part r of
             None \<Rightarrow> None
           | Some e \<Rightarrow>
               Some (round_to_double
                       (decimal_value (digits_value 10 0 (ip @ fp)) (e - int (length fp)))))"

definition after_integer :: "string \<Rightarrow> string \<Rightarrow> jsnum option" where
  "after_integer ip r =
     (case r of
        [] \<Rightarrow> after_fraction ip [] []
      | c # t \<Rightarrow>
          if c = CHR ''.''
          then after_fraction ip (takeWhile (is_digit 10) t) (dropWhile (is_digit 10) t)
          else after_fraction ip [] r)"

definition unsigned_decimal :: "string \<Rightarrow> jsnum option" where
  "unsigned_decimal s =
     (if s = ''Infinity'' then Some PosInf
      else after_integer (takeWhile (is_digit 10) s) (dropWhile (is_digit 10) s))"

definition str_decimal :: "string \<Rightarrow> jsnum option" where
  "str_decimal s =
     (case s of
        [] \<Rightarrow> None
      | c # r \<Rightarrow>
          if c = CHR ''+'' then unsigned_decimal r
          else if c = CHR ''-'' then map_option negate (unsigned_decimal r)
          else unsigned_decimal s)"

text \<open>The literal between the white space: empty is 0, anything unreadable is \<open>NaN\<close>.\<close>

definition numeric_literal :: "string \<Rightarrow> jsnum" where
  "numeric_literal t =
     (if t = [] then Fin 0
      else case non_decimal t of
             Some n \<Rightarrow> round_to_double (of_int (int n))
           | None \<Rightarrow> (case str_decimal t of Some v \<Rightarrow> v | None \<Rightarrow> NaN))"

definition StringToNumber :: "string \<Rightarrow> jsnum" where
  "StringToNumber s = numeric_literal (trim s)"

text \<open>
  What \<open>FormData.get\<close> returns: \<open>null\<close> (\<open>None\<close>), a string, or a \<open>File\<close>.
\<close>

datatype entry = Str string | File

type_synonym FormData = "(string \<times> entry) list"

definition get :: "FormData \<Rightarrow> string \<Rightarrow> entry option" where
  "get formData name = map_of formData name"

text \<open>\<open>Number(v)\<close>: \<open>null\<close> is 0, a string is converted, an object such as a File is \<open>NaN\<close>.\<close>

fun Number :: "entry option \<Rightarrow> jsnum" where
  "Number None = Fin 0"
| "Number (Some (Str s)) = StringToNumber s"
| "Number (Some File) = NaN"

section \<open>Form validation (\<open>FormSchema\<close> in /app/lib/actions.ts)\<close>

text \<open>
  \<open>Errors\<close> is an object with optional keys \<open>customerId\<close>, \<open>amount\<close> and \<open>status\<close>,
  each an array of messages: a map from the key to the list.
\<close>

type_synonym Errors = "string \<rightharpoonup> string list"

record State =
  errors :: "Errors option"
  message :: "string option"

text \<open>What \<open>CreateInvoice.safeParse\<close> is given, and its \<open>data\<close> on success.\<close>

record raw_fields =
  raw_customerId :: "entry option"
  raw_amount :: "entry option"
  raw_status :: "entry option"

record invoice_data =
  customerId :: string
  amount :: jsnum
  status :: string

text \<open>
  Each field's schema returns the parsed value or the message of its one issue; the
  default messages, and a number schema that takes \<open>Infinity\<close>, are zod 3's.
  \<open>z.string\<close> with \<open>invalid_type_error\<close>: anything but a string is a type error.
\<close>

fun parse_customerId :: "entry option \<Rightarrow> string + string" where
  "parse_customerId (Some (Str s)) = Inr s"
| "parse_customerId _ = Inl ''Please select a customer.''"

text \<open>
  \<open>z.coerce.number().gt(0, ...)\<close>: the input is replaced by \<open>Number(input)\<close>; \<open>NaN\<close> is a
  type error with zod's default message; a value \<open><= 0\<close> is the \<open>gt\<close> issue.
\<close>

definition parse_amount :: "entry option \<Rightarrow> string + jsnum" where
  "parse_amount v =
     (let n = Number v in
      if n = NaN then Inl ''Expected number, received nan''
      else if le_js n (Fin 0) then Inl ''Please enter an amount greater than $0.''
      else Inr n)"

text \<open>
  \<open>z.enum(['pending', 'paid'], {invalid_type_error})\<close>: a non-string is a type error
  with the given message, a string outside the enum is zod's invalid-enum-value issue,
  which quotes the enum's values and the received string.
\<close>

definition quoted :: "string \<Rightarrow> string" where
  "quoted s = [CHR 0x27] @ s @ [CHR 0x27]"

fun parse_status :: "entry option \<Rightarrow> string + string" where
  "parse_status (Some (Str s)) =
     (if s \<in> set [''pending'', ''paid''] then Inr s
      else Inl (''Invalid enum value. Expected '' @ quoted ''pending'' @ '' | '' @
                quoted ''paid'' @ '', received '' @ quoted s))"
| "parse_status _ = Inl ''Please select an invoice status.''"

text \<open>\<open>error.flatten().fieldErrors\<close>: a key is present only when its field has an issue.\<close>

definition field_error :: "string \<Rightarrow> string + 'a \<Rightarrow> Errors \<Rightarrow> Errors" where
  "field_error key r errs = (case r of Inl msg \<Rightarrow> errs(key \<mapsto> [msg]) | Inr _ \<Rightarrow> errs)"

text \<open>
  \<open>CreateInvoice.safeParse\<close> and \<open>UpdateInvoice.safeParse\<close> (the same schema:
  \<open>FormSchema\<close> without \<open>id\<close> and \<open>date\<close>): \<open>Inr\<close> the typed record, \<open>Inl\<close> the field errors.
\<close>

definition safeParse :: "raw_fields \<Rightarrow> Errors + invoice_data" where
  "safeParse raw =
     (case (parse_customerId (raw_customerId raw), parse_amount (raw_amount raw),
            parse_status (raw_status raw)) of
        (Inr c, Inr a, Inr s) \<Rightarrow> Inr \<lparr>customerId = c, amount = a, status = s\<rparr>
      | (c, a, s) \<Rightarrow>
          Inl (field_error ''status'' s
                (field_error ''amount'' a
                  (field_error ''customerId'' c Map.empty))))"

definition form_fields :: "FormData \<Rightarrow> raw_fields" where
  "form_fields formData =
     \<lparr>raw_customerId = get formData ''customerId'',
      raw_amount = get formData ''amount'',
      raw_status = get formData ''status''\<rparr>"

section \<open>The database, the framework hooks and the trace of effects\<close>

record invoice_row =
  row_id :: string
  row_customer_id :: string
  row_amount :: jsnum
  row_status :: string
  row_date :: string

record user_row =
  user_email :: string
  user_password :: string

text \<open>The statements the actions send, with their bound parameters.\<close>

datatype sql_stmt =
    InsertInvoice string jsnum string string
  | UpdateInvoice string jsnum string string
  | DeleteInvoice string
  | SelectUser string
  | SelectInvoice string

datatype event =
    Query sql_stmt
  | RevalidatePath string
  | Redirect string
  | ConsoleError
  | ConsoleLog string

text \<open>
  The world an action runs in: the two tables, the statements the database refuses
  (constraint violation, connectivity loss, a value of the wrong type for its column),
  the identifiers the database gives to new rows, the clock, and the trace of every
  effect so far, oldest first.
\<close>

record world =
  invoices :: "invoice_row list"
  users :: "user_row list"
  rejects :: "sql_stmt \<Rightarrow> bool"
  new_ids :: "nat \<Rightarrow> string"
  now :: string
  trace :: "event list"

definition emit :: "event \<Rightarrow> world \<Rightarrow> world" where
  "emit e w = w\<lparr>trace := trace w @ [e]\<rparr>"

text \<open>The events added to the trace between two worlds.\<close>

definition emitted :: "world \<Rightarrow> world \<Rightarrow> event list" where
  "emitted w w' = drop (length (trace w)) (trace w')"

text \<open>What a statement that the database executes does to the invoices table.\<close>

fun apply_stmt :: "sql_stmt \<Rightarrow> world \<Rightarrow> invoice_row list" where
  "apply_stmt (InsertInvoice c a s d) w =
     invoices w @
       [\<lparr>row_id = new_ids w (length (invoices w)), row_customer_id = c, row_amount = a,
         row_status = s, row_date = d\<rparr>]"
| "apply_stmt (UpdateInvoice c a s i) w =
     map (\<lambda>r. if row_id r = i
               then r\<lparr>row_customer_id := c, row_amount := a, row_status := s\<rparr> else r)
       (invoices w)"
| "apply_stmt (DeleteInvoice i) w = filter (\<lambda>r. row_id r \<noteq> i) (invoices w)"
| "apply_stmt _ w = invoices w"

text \<open>
  \<open>await sql`...`\<close>: the statement is sent; the database either refuses it (the promise
  rejects, \<open>False\<close>) or executes it (\<open>True\<close>). A statement whose \<open>WHERE\<close> matches no row
  is executed and changes nothing.
\<close>

definition sql :: "sql_stmt \<Rightarrow> world \<Rightarrow> bool \<times> world" where
  "sql st w =
     (let w1 = emit (Query st) w in
      if rejects w st then (False, w1) else (True, w1\<lparr>invoices := apply_stmt st w1\<rparr>))"

definition revalidatePath :: "string \<Rightarrow> world \<Rightarrow> world" where
  "revalidatePath path w = emit (RevalidatePath path) w"

text \<open>
  What a server action ends with: a returned state, or a redirect (\<open>redirect\<close> does not
  return to its caller).
\<close>

datatype action_result = Returned State | Redirected string

definition redirect :: "string \<Rightarrow> world \<Rightarrow> action_result \<times> world" where
  "redirect path w = (Redirected path, emit (Redirect path) w)"

section \<open>The invoice actions (/app/lib/actions.ts)\<close>

definition createInvoice :: "State \<Rightarrow> FormData \<Rightarrow> world \<Rightarrow> action_result \<times> world" where
  "createInvoice prevState formData w =
     (case safeParse (form_fields formData) of
        Inl fieldErrors \<Rightarrow>
          (Returned \<lparr>errors = Some fieldErrors,
                     message = Some ''Missing Fields. Failed to Create Invoice.''\<rparr>, w)
      | Inr d \<Rightarrow>
          (let amountInCents = times_js (amount d) (Fin 100);
               date = takeWhile (\<lambda>c. c \<noteq> CHR ''T'') (now w);
               (ok, w1) = sql (InsertInvoice (customerId d) amountInCents (status d) date) w
           in if \<not> ok
              then (Returned \<lparr>errors = None,
                              message = Some ''Database Error: Failed to Create Invoice.''\<rparr>, w1)
              else redirect ''/dashboard/invoices'' (revalidatePath ''/dashboard/invoices'' w1)))"

definition updateInvoice ::
  "string \<Rightarrow> State \<Rightarrow> FormData \<Rightarrow> world \<Rightarrow> action_result \<times> world" where
  "updateInvoice i prevState formData w =
     (case safeParse (form_fields formData) of
        Inl fieldErrors \<Rightarrow>
          (Returned \<lparr>errors = Some fieldErrors,
                     message = Some ''Missing Fields. Failed to Update Invoice.''\<rparr>, w)
      | Inr d \<Rightarrow>
          (let amountInCents = times_js (amount d) (Fin 100);
               (ok, w1) = sql (UpdateInvoice (customerId d) amountInCents (status d) i) w
           in if \<not> ok
              then (Returned \<lparr>errors = None,
                              message = Some ''Database Error: Failed to Update Invoice.''\<rparr>, w1)
              else redirect ''/dashboard/invoices'' (revalidatePath ''/dashboard/invoices'' w1)))"

definition deleteInvoice :: "string \<Rightarrow> world \<Rightarrow> action_result \<times> world" where
  "deleteInvoice i w =
     (let (ok, w1) = sql (DeleteInvoice i) w
      in if ok
         then (Returned \<lparr>errors = None, message = Some ''Deleted Invoice.''\<rparr>,
               revalidatePath ''/dashboard/invoices'' w1)
         else (Returned \<lparr>errors = None,
                         message = Some ''Database Error: Failed to Delete Invoice.''\<rparr>,
               emit ConsoleError w1))"

text \<open>The amounts bound into the INSERT and UPDATE statements of a trace, in order.\<close>

fun bound_amounts :: "event list \<Rightarrow> jsnum list" where
  "bound_amounts [] = []"
| "bound_amounts (Query (InsertInvoice c a s d) # es) = a # bound_amounts es"
| "bound_amounts (Query (UpdateInvoice c a s i) # es) = a # bound_amounts es"
| "bound_amounts (e # es) = bound_amounts es"

text \<open>The calls of the two framework hooks in a trace, in order.\<close>

fun hooks :: "event list \<Rightarrow> event list" where
  "hooks [] = []"
| "hooks (RevalidatePath p # es) = RevalidatePath p # hooks es"
| "hooks (Redirect p # es) = Redirect p # hooks es"
| "hooks (e # es) = hooks es"

section \<open>Login (/auth.ts and \<open>authenticate\<close> in /app/lib/actions.ts)\<close>

text \<open>
  What an \<open>async\<close> function ends with: a value, or a thrown error. \<open>AuthError t\<close> is an
  instance of NextAuth's \<open>AuthError\<close> with \<open>type\<close> field \<open>t\<close>; \<open>Error m\<close> is any other
  error; \<open>NotFoundError\<close> is what \<open>notFound()\<close> throws.
\<close>

datatype js_error = AuthError string | Error string | NotFoundError

datatype 'a outcome = Returns 'a | Throws js_error

definition getUser :: "string \<Rightarrow> world \<Rightarrow> user_row option outcome \<times> world" where
  "getUser email w =
     (let (ok, w1) = sql (SelectUser email) w
      in if ok
         then (Returns (case filter (\<lambda>u. user_email u = email) (users w1) of
                          [] \<Rightarrow> None | u # _ \<Rightarrow> Some u), w1)
         else (Throws (Error ''Failed to fetch user.''), emit ConsoleError w1))"

text \<open>
  \<open>z.object({email: z.string().email(), password: z.string().min(6)}).safeParse\<close>.
  The credentials are an object of unknown values, read like form entries. Which
  strings zod takes for an email address is its own regular expression: the
  parameter \<open>is_email\<close>.
\<close>

definition parse_credentials :: "(string \<Rightarrow> bool) \<Rightarrow> FormData \<Rightarrow> (string \<times> string) option" where
  "parse_credentials is_email credentials =
     (case (get credentials ''email'', get credentials ''password'') of
        (Some (Str e), Some (Str p)) \<Rightarrow>
          if is_email e \<and> 6 \<le> length p then Some (e, p) else None
      | _ \<Rightarrow> None)"

text \<open>
  \<open>authorize\<close> of the credentials provider; \<open>bcrypt_compare\<close> stands for
  \<open>bcrypt.compare\<close>. \<open>None\<close> is \<open>null\<close>.
\<close>

definition authorize ::
  "(string \<Rightarrow> bool) \<Rightarrow> (string \<Rightarrow> string \<Rightarrow> bool) \<Rightarrow> FormData \<Rightarrow> world
     \<Rightarrow> user_row option outcome \<times> world" where
  "authorize is_email bcrypt_compare credentials w =
     (case parse_credentials is_email credentials of
        None \<Rightarrow> (Returns None, emit (ConsoleLog ''Invalid credentials'') w)
      | Some (email, password) \<Rightarrow>
          (case getUser email w of
             (Throws e, w1) \<Rightarrow> (Throws e, w1)
           | (Returns None, w1) \<Rightarrow> (Returns None, w1)
           | (Returns (Some user), w1) \<Rightarrow>
               if bcrypt_compare password (user_password user)
               then (Returns (Some user), w1)
               else (Returns None, emit (ConsoleLog ''Invalid credentials'') w1)))"

text \<open>
  The login action. \<open>signIn\<close> is the authentication library's function, a parameter:
  it returns, or throws. The action returns a message, or \<open>undefined\<close> (\<open>None\<close>), or
  rethrows.
\<close>

definition authenticate ::
  "(string \<Rightarrow> FormData \<Rightarrow> world \<Rightarrow> unit outcome \<times> world) \<Rightarrow> string option \<Rightarrow> FormData
     \<Rightarrow> world \<Rightarrow> string option outcome \<times> world" where
  "authenticate signIn prevState formData w =
     (case signIn ''credentials'' formData w of
        (Returns _, w1) \<Rightarrow> (Returns None, w1)
      | (Throws (AuthError t), w1) \<Rightarrow>
          (Returns (Some (if t = ''CredentialsSignin'' then ''Invalid credentials.''
                          else ''Something went wrong.'')), w1)
      | (Throws e, w1) \<Rightarrow> (Throws e, w1))"

section \<open>The edit page (/dashboard/invoices/[id]/edit/page.tsx)\<close>

text \<open>
  Modelled from the spec: \<open>fetchInvoiceById\<close> of /app/lib/data, which is not among the
  sources. It selects the invoice with the identifier and gives the matching row, or
  nothing when no row matches; a query the database refuses is an unexpected error,
  which propagates.
\<close>

definition fetchInvoiceById :: "string \<Rightarrow> world \<Rightarrow> invoice_row option outcome \<times> world" where
  "fetchInvoiceById i w =
     (let (ok, w1) = sql (SelectInvoice i) w
      in if ok then (Returns (find (\<lambda>r. row_id r = i) (invoices w1)), w1)
         else (Throws (Error ''Failed to fetch invoice.''), w1))"

text \<open>
  What the page returns: the edit form for the invoice and the customers (the part
  of the page after the check is elided in the source).
\<close>

datatype 'c page = EditForm invoice_row 'c

text \<open>
  The page awaits both fetches (\<open>Promise.all\<close>: the first rejection is thrown), then
  calls \<open>notFound()\<close> when there is no invoice. \<open>fetchCustomers\<close> is a parameter.
\<close>

definition Page :: "(world \<Rightarrow> 'c outcome \<times> world) \<Rightarrow> string \<Rightarrow> world \<Rightarrow> 'c page outcome \<times> world" where
  "Page fetchCustomers i w =
     (let (invoice, w1) = fetchInvoiceById i w;
          (customers, w2) = fetchCustomers w1
      in case invoice of
           Throws e \<Rightarrow> (Throws e, w2)
         | Returns found \<Rightarrow>
             (case customers of
                Throws e \<Rightarrow> (Throws e, w2)
              | Returns cs \<Rightarrow>
                  (case found of
                     None \<Rightarrow> (Throws NotFoundError, w2)
                   | Some r \<Rightarrow> (Returns (EditForm r cs), w2))))"

text \<open>
  What the route shows for a page's outcome: the page, the not-found view of
  not-found.tsx for \<open>notFound()\<close> (it takes precedence over error.tsx), and the
  catch-all boundary of error.tsx for any other thrown error.
\<close>

datatype 'c view = PageView "'c page" | NotFoundView | ErrorBoundaryView

fun route_view :: "'c page outcome \<Rightarrow> 'c view" where
  "route_view (Returns p) = PageView p"
| "route_view (Throws NotFoundError) = NotFoundView"
| "route_view (Throws _) = ErrorBoundaryView"

section \<open>The error list of a form field (/app/ui/invoices/errors.tsx)\<close>

text \<open>The rendered elements: the container with its \<open>id\<close> and children, and a paragraph.\<close>

datatype element = Div string "element list" | P string

definition ErrorMessages :: "Errors option \<Rightarrow> string \<Rightarrow> element" where
  "ErrorMessages errs key =
     (let errMsg = (case errs of
                      None \<Rightarrow> []
                    | Some e \<Rightarrow> (case e key of None \<Rightarrow> [] | Some msgs \<Rightarrow> msgs))
      in Div (key @ ''-error'') (map P errMsg))"

section \<open>Worlds and forms used as concrete inputs\<close>

definition known_id :: string where
  "known_id = ''a1b2c3d4-0000-4000-8000-000000000001''"

definition unknown_id :: string where
  "unknown_id = ''a1b2c3d4-0000-4000-8000-000000000002''"

text \<open>A database with one invoice and one user that executes every statement.\<close>

definition idle_world :: world where
  "idle_world =
     \<lparr>invoices = [\<lparr>row_id = known_id, row_customer_id = ''abc'', row_amount = Fin 1050,
                    row_status = ''pending'', row_date = ''2024-04-30''\<rparr>],
      users = [\<lparr>user_email = ''user@nextmail.com'', user_password = ''hash''\<rparr>],
      rejects = (\<lambda>_. False), new_ids = (\<lambda>n. unknown_id),
      now = ''2024-05-01T10:00:00.000Z'', trace = []\<rparr>"

text \<open>The same database when it refuses every statement.\<close>

definition down_world :: world where
  "down_world = idle_world\<lparr>rejects := (\<lambda>_. True)\<rparr>"

definition no_state :: State where
  "no_state = \<lparr>errors = None, message = None\<rparr>"

text \<open>A form whose customer and status are valid, with the given amount.\<close>

definition invoice_form :: "string \<Rightarrow> FormData" where
  "invoice_form a =
     [(''customerId'', Str ''abc''), (''amount'', Str a), (''status'', Str ''pending'')]"


text \<open>A customers fetch that returns one customer, and one that fails.\<close>

definition customers_found :: "world \<Rightarrow> string list outcome \<times> world" where
  "customers_found w = (Returns [''abc''], w)"

definition customers_failed :: "world \<Rightarrow> string list outcome \<times> world" where
  "customers_failed w = (Throws (Error ''Failed to fetch all customers.''), w)"

section \<open>Supporting lemmas\<close>

subsection \<open>The trace and the database\<close>

lemma emitted_self: "emitted w w = []"
  by (simp add: emitted_def)

lemma trace_emit: "trace (emit e w) = trace w @ [e]"
  by (simp add: emit_def)


lemma trace_sql: "trace (snd (sql st w)) = trace w @ [Query st]"
  by (simp add: sql_def Let_def trace_emit)

lemma fst_sql: "fst (sql st w) = (\<not> rejects w st)"
  by (simp add: sql_def Let_def)

lemma sql_select:
  "\<not> rejects w st \<Longrightarrow> apply_stmt st (emit (Query st) w) = invoices w
     \<Longrightarrow> sql st w = (True, emit (Query st) w)"
  by (simp add: sql_def emit_def)

lemma delete_no_match:
  "\<forall>r \<in> set (invoices w). row_id r \<noteq> i \<Longrightarrow> apply_stmt (DeleteInvoice i) w = invoices w"
  by (auto simp: filter_id_conv)

subsection \<open>Rounding to a double\<close>

lemma round_half_even_ge_1: "1 \<le> x \<Longrightarrow> 1 \<le> round_half_even x"
proof -
  assume "1 \<le> x"
  then have "1 \<le> \<lfloor>x\<rfloor>" by linarith
  then show ?thesis by (simp add: round_half_even_def Let_def)
qed

lemma round_half_even_nonneg: "0 \<le> x \<Longrightarrow> 0 \<le> round_half_even x"
proof -
  assume "0 \<le> x"
  then have "0 \<le> \<lfloor>x\<rfloor>" by linarith
  then show ?thesis by (simp add: round_half_even_def Let_def)
qed

text \<open>The exponent found by \<open>ilog2\<close> is not too large.\<close>

lemma ilog2_lower:
  assumes "0 < q"
  shows "2 powi (ilog2 q) \<le> q"
proof -
  obtain a b where ab: "quotient_of q = (a, b)" by (cases "quotient_of q")
  have b: "0 < b" using ab by (rule quotient_of_denom_pos)
  have q: "q = of_int a / of_int b" using ab by (rule quotient_of_div)
  have a: "0 < a" using assms b q by (simp add: zero_less_divide_iff)
  let ?e = "bitlen a - bitlen b"
  have la: "1 \<le> bitlen a" using a bitlen_eq_zero_iff [of a] bitlen_nonneg [of a] by linarith
  have lb: "1 \<le> bitlen b" using b bitlen_eq_zero_iff [of b] bitlen_nonneg [of b] by linarith
  have "2 powi (?e - 1) \<le> q"
  proof -
    have num: "(2::rat) ^ nat (bitlen a - 1) \<le> of_int a"
      using bitlen_bounds [OF a] by (metis of_int_le_iff of_int_numeral of_int_power)
    have den: "of_int b \<le> (2::rat) ^ nat (bitlen b)"
      using bitlen_bounds [OF b] by (metis less_le of_int_le_iff of_int_numeral of_int_power)
    have "2 powi (?e - 1) = (2::rat) powi ((bitlen a - 1) - bitlen b)"
      by (rule arg_cong [of _ _ "power_int 2"]) linarith
    also have "\<dots> = (2::rat) powi (bitlen a - 1) / 2 powi (bitlen b)"
      by (rule power_int_diff) simp
    also have "\<dots> = (2::rat) ^ nat (bitlen a - 1) / 2 ^ nat (bitlen b)"
      using la lb by (simp add: power_int_def)
    also have "\<dots> \<le> of_int a / of_int b"
      using num den a b by (intro frac_le) auto
    finally show ?thesis using q by simp
  qed
  then show ?thesis
    using ab by (simp add: ilog2_def Let_def)
qed

text \<open>Nor is it too small.\<close>

lemma ilog2_upper:
  assumes "0 < q"
  shows "q < 2 powi (ilog2 q + 1)"
proof -
  obtain a b where ab: "quotient_of q = (a, b)" by (cases "quotient_of q")
  have b: "0 < b" using ab by (rule quotient_of_denom_pos)
  have q: "q = of_int a / of_int b" using ab by (rule quotient_of_div)
  have a: "0 < a" using assms b q by (simp add: zero_less_divide_iff)
  let ?e = "bitlen a - bitlen b"
  have la: "1 \<le> bitlen a" using a bitlen_eq_zero_iff [of a] bitlen_nonneg [of a] by linarith
  have lb: "1 \<le> bitlen b" using b bitlen_eq_zero_iff [of b] bitlen_nonneg [of b] by linarith
  have up: "q < 2 powi (?e + 1)"
  proof -
    have num: "of_int a < (2::rat) ^ nat (bitlen a)"
      using bitlen_bounds [OF a] by (metis of_int_less_iff of_int_numeral of_int_power)
    have den: "(2::rat) ^ nat (bitlen b - 1) \<le> of_int b"
      using bitlen_bounds [OF b] by (metis of_int_le_iff of_int_numeral of_int_power)
    have "of_int a / of_int b < (2::rat) ^ nat (bitlen a) / 2 ^ nat (bitlen b - 1)"
      using num den a b by (intro frac_less) auto
    also have "\<dots> = (2::rat) powi (bitlen a) / 2 powi (bitlen b - 1)"
      using la lb by (simp add: power_int_def)
    also have "\<dots> = (2::rat) powi (bitlen a - (bitlen b - 1))"
      by (rule power_int_diff [symmetric]) simp
    also have "\<dots> = 2 powi (?e + 1)"
      by (rule arg_cong [of _ _ "power_int 2"]) linarith
    finally show ?thesis using q by simp
  qed
  show ?thesis
  proof (cases "2 powi ?e \<le> q")
    case True
    then show ?thesis using ab up by (simp add: ilog2_def Let_def)
  next
    case False
    then show ?thesis using ab by (simp add: ilog2_def Let_def)
  qed
qed

text \<open>The overflow test of \<open>round_pos\<close> is the comparison with \<open>2 powi 1024\<close>.\<close>

lemma overflow_test:
  assumes "0 < v"
  shows "1024 \<le> ilog2 v \<longleftrightarrow> 2 powi 1024 \<le> v"
proof
  assume "1024 \<le> ilog2 v"
  then have "(2::rat) powi 1024 \<le> 2 powi (ilog2 v)" by (intro power_int_increasing) auto
  also have "\<dots> \<le> v" using assms by (rule ilog2_lower)
  finally show "2 powi 1024 \<le> v" .
next
  assume h: "2 powi 1024 \<le> v"
  show "1024 \<le> ilog2 v"
  proof (rule ccontr)
    assume "\<not> 1024 \<le> ilog2 v"
    then have "ilog2 v + 1 \<le> 1024" by simp
    then have "(2::rat) powi (ilog2 v + 1) \<le> 2 powi 1024" by (intro power_int_increasing) auto
    then show False using ilog2_upper [OF assms] h by linarith
  qed
qed

text \<open>The spacing used for a value at or above the smallest subnormal is at most the value.\<close>

lemma ulp_le:
  assumes "2 powi (- 1074) \<le> q"
  shows "2 powi (max (ilog2 q) (- 1022) - 52) \<le> q"
proof (cases "- 1022 \<le> ilog2 q")
  case True
  have q: "0 < q" using assms zero_less_power_int [of "2::rat" "- 1074"] by linarith
  have "(2::rat) powi (ilog2 q - 52) \<le> 2 powi (ilog2 q)"
    by (rule power_int_increasing) auto
  also have "\<dots> \<le> q" using q by (rule ilog2_lower)
  finally show ?thesis using True by (simp add: max_def)
next
  case False
  then have "max (ilog2 q) (- 1022) - 52 = - 1074" by simp
  then show ?thesis using assms by simp
qed

lemma round_pos_positive:
  assumes "2 powi (- 1074) \<le> q"
  shows "is_positive (round_pos q)"
proof -
  let ?u = "(2::rat) powi (max (ilog2 q) (- 1022) - 52)"
  have u: "0 < ?u" by simp
  have "1 \<le> q / ?u" using ulp_le [OF assms] u by (simp add: le_divide_eq)
  then have "1 \<le> round_half_even (q / ?u)" by (rule round_half_even_ge_1)
  then have "0 < (of_int (round_half_even (q / ?u)) :: rat) * ?u"
    using u by (simp add: zero_less_mult_iff)
  then show ?thesis by (simp add: round_pos_def Let_def)
qed

lemma round_pos_min_magnitude:
  assumes "0 < q" and "round_pos q = Fin v"
  shows "v = 0 \<or> 2 powi (- 1074) \<le> v"
proof -
  let ?k = "max (ilog2 q) (- 1022) - 52"
  let ?u = "(2::rat) powi ?k"
  let ?n = "round_half_even (q / ?u)"
  have u: "0 < ?u" by simp
  have v: "v = of_int ?n * ?u" using assms(2) by (simp add: round_pos_def Let_def split: if_splits)
  have n: "0 \<le> ?n" using assms(1) u by (intro round_half_even_nonneg) simp
  have least: "(2::rat) powi (- 1074) \<le> ?u" by (rule power_int_increasing) auto
  show ?thesis
  proof (cases "?n = 0")
    case True
    then show ?thesis using v by simp
  next
    case False
    then have "1 \<le> ?n" using n by linarith
    then have "(1::rat) \<le> of_int ?n" by simp
    then have "?u \<le> of_int ?n * ?u" using u mult_right_mono [of 1 "of_int ?n" ?u] by simp
    then show ?thesis using least v by linarith
  qed
qed

lemma min_magnitude_negate: "min_magnitude x \<Longrightarrow> min_magnitude (negate x)"
  by (cases x) auto

lemma min_magnitude_round_pos: "0 < q \<Longrightarrow> min_magnitude (round_pos q)"
proof (cases "round_pos q")
  case (Fin v)
  assume "0 < q"
  then have "v = 0 \<or> 2 powi (- 1074) \<le> v" using Fin by (rule round_pos_min_magnitude)
  then show ?thesis using Fin by auto
qed simp_all

lemma min_magnitude_round_to_double: "min_magnitude (round_to_double q)"
  by (simp add: round_to_double_def min_magnitude_round_pos min_magnitude_negate)

subsection \<open>Every result of \<open>Number\<close> is a double\<close>

lemma decimal_value_eq: "decimal_value m e = of_nat m * 10 powi e"
  by (simp add: decimal_value_def power_int_def field_simps)

lemma min_magnitude_after_fraction: "after_fraction ip fp r = Some x \<Longrightarrow> min_magnitude x"
  by (auto simp: after_fraction_def min_magnitude_round_to_double
           split: if_splits option.splits)

lemma min_magnitude_after_integer: "after_integer ip r = Some x \<Longrightarrow> min_magnitude x"
  by (auto simp: after_integer_def split: list.splits if_splits
           dest: min_magnitude_after_fraction)

lemma min_magnitude_unsigned_decimal: "unsigned_decimal s = Some x \<Longrightarrow> min_magnitude x"
  by (auto simp: unsigned_decimal_def split: if_splits dest: min_magnitude_after_integer)

lemma min_magnitude_str_decimal: "str_decimal s = Some x \<Longrightarrow> min_magnitude x"
  by (auto simp: str_decimal_def min_magnitude_negate
           split: list.splits if_splits dest: min_magnitude_unsigned_decimal)

lemma min_magnitude_StringToNumber: "min_magnitude (StringToNumber s)"
  by (auto simp: StringToNumber_def numeric_literal_def min_magnitude_round_to_double
           split: option.splits dest: min_magnitude_str_decimal)

lemma min_magnitude_Number: "min_magnitude (Number v)"
  by (cases v rule: Number.cases) (simp_all add: min_magnitude_StringToNumber)

subsection \<open>Validation\<close>

lemma parse_amount_accepts:
  "parse_amount v = Inr a \<longleftrightarrow> a = Number v \<and> (a = PosInf \<or> (\<exists>x. a = Fin x \<and> 0 < x))"
  by (cases "Number v") (auto simp: parse_amount_def Let_def)

lemma parse_amount_rejects:
  "Number v = NaN \<or> le_js (Number v) (Fin 0) \<Longrightarrow> \<exists>msg. parse_amount v = Inl msg"
  by (auto simp: parse_amount_def Let_def)

lemma cents_positive:
  assumes "parse_amount v = Inr a"
  shows "is_positive (times_js a (Fin 100))"
proof -
  from assms have a: "a = Number v" and c: "a = PosInf \<or> (\<exists>x. a = Fin x \<and> 0 < x)"
    unfolding parse_amount_accepts by blast+
  from c show ?thesis
  proof
    assume "a = PosInf"
    then show ?thesis by simp
  next
    assume "\<exists>x. a = Fin x \<and> 0 < x"
    then obtain x where x: "a = Fin x" "0 < x" by blast
    have "min_magnitude (Fin x)" using min_magnitude_Number [of v] a x by simp
    then have "2 powi (- 1074) \<le> x" using x by simp
    moreover have "x \<le> x * 100" using x by simp
    ultimately have "2 powi (- 1074) \<le> x * 100" by linarith
    then have "is_positive (round_pos (x * 100))" by (rule round_pos_positive)
    then show ?thesis using x by (simp add: round_to_double_def)
  qed
qed

lemma safeParse_Inr:
  "safeParse raw = Inr d \<longleftrightarrow>
     (\<exists>c a s. parse_customerId (raw_customerId raw) = Inr c \<and> parse_amount (raw_amount raw) = Inr a
        \<and> parse_status (raw_status raw) = Inr s \<and> d = \<lparr>customerId = c, amount = a, status = s\<rparr>)"
  by (auto simp: safeParse_def split: sum.splits)

lemma safeParse_amount_error:
  "parse_amount (raw_amount raw) = Inl msg \<Longrightarrow>
     \<exists>errs. safeParse raw = Inl errs \<and> errs ''amount'' = Some [msg]"
  by (auto simp: safeParse_def field_error_def split: sum.splits)

lemma parse_customerId_Inr: "parse_customerId v = Inr c \<longleftrightarrow> v = Some (Str c)"
  by (cases v rule: parse_customerId.cases) auto

lemma parse_status_Inr:
  "(\<exists>s. parse_status v = Inr s) \<longleftrightarrow> v = Some (Str ''pending'') \<or> v = Some (Str ''paid'')"
  by (cases v rule: parse_status.cases) auto

lemma safeParse_Inl:
  assumes "parse_amount (raw_amount raw) = Inl msg"
  shows "safeParse raw =
           Inl (field_error ''status'' (parse_status (raw_status raw))
                 (field_error ''amount'' (Inl msg :: string + jsnum)
                   (field_error ''customerId'' (parse_customerId (raw_customerId raw)) Map.empty)))"
  using assms by (simp add: safeParse_def split: sum.splits)

lemma only_amount_error:
  "field_error ''status'' s (field_error ''amount'' (Inl msg :: string + jsnum)
      (field_error ''customerId'' c Map.empty)) = [''amount'' \<mapsto> [msg]]
   \<longleftrightarrow> (\<exists>cv. c = Inr cv) \<and> (\<exists>sv. s = Inr sv)"
proof (cases c)
  case (Inl cm)
  have "field_error ''status'' s (field_error ''amount'' (Inl msg :: string + jsnum)
      (field_error ''customerId'' (Inl cm) Map.empty)) ''customerId'' = Some [cm]"
    by (cases s) (simp_all add: field_error_def)
  moreover have "[''amount'' \<mapsto> [msg]] ''customerId'' = None" by simp
  ultimately have "field_error ''status'' s (field_error ''amount'' (Inl msg :: string + jsnum)
      (field_error ''customerId'' (Inl cm) Map.empty)) \<noteq> [''amount'' \<mapsto> [msg]]"
    by (metis option.distinct(1))
  then show ?thesis using Inl by simp
next
  case (Inr cv)
  show ?thesis
  proof (cases s)
    case (Inl sm)
    have "field_error ''status'' (Inl sm) (field_error ''amount'' (Inl msg :: string + jsnum)
      (field_error ''customerId'' c Map.empty)) ''status'' = Some [sm]"
      by (simp add: field_error_def)
    moreover have "[''amount'' \<mapsto> [msg]] ''status'' = None" by simp
    ultimately have "field_error ''status'' (Inl sm) (field_error ''amount'' (Inl msg :: string + jsnum)
      (field_error ''customerId'' c Map.empty)) \<noteq> [''amount'' \<mapsto> [msg]]"
      by (metis option.distinct(1))
    then show ?thesis using Inl by simp
  next
    case (Inr sv)
    then show ?thesis using \<open>c = Inr cv\<close> by (simp add: field_error_def)
  qed
qed

subsection \<open>The three actions, case by case\<close>

lemma createInvoice_invalid:
  "safeParse (form_fields formData) = Inl errs \<Longrightarrow>
   createInvoice prevState formData w =
     (Returned \<lparr>errors = Some errs, message = Some ''Missing Fields. Failed to Create Invoice.''\<rparr>, w)"
  by (simp add: createInvoice_def)

lemma updateInvoice_invalid:
  "safeParse (form_fields formData) = Inl errs \<Longrightarrow>
   updateInvoice i prevState formData w =
     (Returned \<lparr>errors = Some errs, message = Some ''Missing Fields. Failed to Update Invoice.''\<rparr>, w)"
  by (simp add: updateInvoice_def)

lemma createInvoice_valid:
  assumes "safeParse (form_fields formData) = Inr d"
    and "st = InsertInvoice (customerId d) (times_js (amount d) (Fin 100)) (status d)
               (takeWhile (\<lambda>c. c \<noteq> CHR ''T'') (now w))"
  shows "fst (createInvoice prevState formData w) =
           (if rejects w st
            then Returned \<lparr>errors = None, message = Some ''Database Error: Failed to Create Invoice.''\<rparr>
            else Redirected ''/dashboard/invoices'')"
    and "emitted w (snd (createInvoice prevState formData w)) =
           (if rejects w st then [Query st]
            else [Query st, RevalidatePath ''/dashboard/invoices'', Redirect ''/dashboard/invoices''])"
  using assms
  by (simp_all add: createInvoice_def Let_def split_beta fst_sql trace_sql trace_emit
        revalidatePath_def redirect_def emitted_def)

lemma updateInvoice_valid:
  assumes "safeParse (form_fields formData) = Inr d"
    and "st = UpdateInvoice (customerId d) (times_js (amount d) (Fin 100)) (status d) i"
  shows "fst (updateInvoice i prevState formData w) =
           (if rejects w st
            then Returned \<lparr>errors = None, message = Some ''Database Error: Failed to Update Invoice.''\<rparr>
            else Redirected ''/dashboard/invoices'')"
    and "emitted w (snd (updateInvoice i prevState formData w)) =
           (if rejects w st then [Query st]
            else [Query st, RevalidatePath ''/dashboard/invoices'', Redirect ''/dashboard/invoices''])"
  using assms
  by (simp_all add: updateInvoice_def Let_def split_beta fst_sql trace_sql trace_emit
        revalidatePath_def redirect_def emitted_def)

lemma createInvoice_rows:
  assumes "safeParse (form_fields formData) = Inr d"
    and "st = InsertInvoice (customerId d) (times_js (amount d) (Fin 100)) (status d)
               (takeWhile (\<lambda>c. c \<noteq> CHR ''T'') (now w))"
  shows "invoices (snd (createInvoice prevState formData w)) =
           (if rejects w st then invoices w
            else invoices w @
                   [\<lparr>row_id = new_ids w (length (invoices w)), row_customer_id = customerId d,
                     row_amount = times_js (amount d) (Fin 100), row_status = status d,
                     row_date = takeWhile (\<lambda>c. c \<noteq> CHR ''T'') (now w)\<rparr>])"
  using assms
  by (simp add: createInvoice_def sql_def Let_def emit_def revalidatePath_def redirect_def)

lemma deleteInvoice_result:
  "fst (deleteInvoice i w) =
     (if rejects w (DeleteInvoice i)
      then Returned \<lparr>errors = None, message = Some ''Database Error: Failed to Delete Invoice.''\<rparr>
      else Returned \<lparr>errors = None, message = Some ''Deleted Invoice.''\<rparr>)"
  "emitted w (snd (deleteInvoice i w)) =
     (if rejects w (DeleteInvoice i) then [Query (DeleteInvoice i), ConsoleError]
      else [Query (DeleteInvoice i), RevalidatePath ''/dashboard/invoices''])"
  by (simp_all add: deleteInvoice_def Let_def split_beta fst_sql trace_sql trace_emit
        revalidatePath_def emitted_def)

subsection \<open>Concrete conversions, evaluated\<close>

lemma Number_10_50: "StringToNumber ''10.50'' = Fin (21 / 2)"
  by code_simp

lemma Number_0: "StringToNumber ''0'' = Fin 0"
  by code_simp

lemma Number_19_99: "StringToNumber ''19.99'' = Fin (5626684784446013 / 281474976710656)"
  by code_simp

lemma cents_10_50: "times_js (Fin (21 / 2)) (Fin 100) = Fin 1050"
  by code_simp

lemma cents_19_99:
  "times_js (Fin (5626684784446013 / 281474976710656)) (Fin 100)
     = Fin (8791694975696895 / 4398046511104)"
  by code_simp

lemma form_fields_invoice_form:
  "form_fields (invoice_form a) =
     \<lparr>raw_customerId = Some (Str ''abc''), raw_amount = Some (Str a),
      raw_status = Some (Str ''pending'')\<rparr>"
  by (simp add: form_fields_def invoice_form_def get_def)

lemma safeParse_10_50:
  "safeParse (form_fields (invoice_form ''10.50''))
     = Inr \<lparr>customerId = ''abc'', amount = Fin (21 / 2), status = ''pending''\<rparr>"
  by (simp add: form_fields_invoice_form safeParse_def parse_amount_def Number_10_50)

lemma safeParse_19_99:
  "safeParse (form_fields (invoice_form ''19.99''))
     = Inr \<lparr>customerId = ''abc'', amount = Fin (5626684784446013 / 281474976710656),
            status = ''pending''\<rparr>"
  by (simp add: form_fields_invoice_form safeParse_def parse_amount_def Number_19_99)

lemma safeParse_0:
  "safeParse (form_fields (invoice_form ''0''))
     = Inl [''amount'' \<mapsto> [''Please enter an amount greater than $0.'']]"
  by (simp add: form_fields_invoice_form safeParse_def parse_amount_def Number_0 field_error_def)

lemma cents_of_10_50:
  "bound_amounts (emitted w (snd (createInvoice prevState (invoice_form ''10.50'') w))) = [Fin 1050]"
  using createInvoice_valid(2) [OF safeParse_10_50 refl, of w prevState]
  by (simp add: cents_10_50 del: times_js.simps)

section \<open>The claims\<close>

text \<open>
  Claim C1 (a defect of the code). The claim: for every create or update request that
  reaches the persistence step, the amount bound into the SQL statement is a positive
  integer number of cents. Both actions convert to cents with \<open>amount * 100\<close> in double
  arithmetic and do not round the product. For the amount \<open>19.99\<close>, which the form's
  step of 0.01 allows and validation accepts, both bind \<open>1999 - 2 powi (-42)\<close>, the
  double 1998.9999999999998, which is not an integer.
\<close>

theorem persisted_amount_not_integer:
  "bound_amounts (emitted idle_world (snd (createInvoice no_state (invoice_form ''19.99'') idle_world)))
     = [Fin (8791694975696895 / 4398046511104)]
   \<and> bound_amounts (emitted idle_world
         (snd (updateInvoice known_id no_state (invoice_form ''19.99'') idle_world)))
     = [Fin (8791694975696895 / 4398046511104)]
   \<and> \<not> is_positive_integer (Fin (8791694975696895 / 4398046511104))"
proof -
  have "bound_amounts (emitted idle_world
          (snd (createInvoice no_state (invoice_form ''19.99'') idle_world)))
        = [Fin (8791694975696895 / 4398046511104)]"
    using createInvoice_valid(2) [OF safeParse_19_99 refl, of idle_world no_state]
    by (simp add: cents_19_99 idle_world_def del: times_js.simps)
  moreover have "bound_amounts (emitted idle_world
          (snd (updateInvoice known_id no_state (invoice_form ''19.99'') idle_world)))
        = [Fin (8791694975696895 / 4398046511104)]"
    using updateInvoice_valid(2) [OF safeParse_19_99 refl, where w = idle_world
            and prevState = no_state and i = known_id]
    by (simp add: cents_19_99 idle_world_def del: times_js.simps)
  moreover have "\<not> is_positive_integer (Fin (8791694975696895 / 4398046511104))"
    by code_simp
  ultimately show ?thesis by simp
qed

text \<open>
  What validation does guarantee of the bound amount: it is greater than zero.
\<close>

lemma bound_amount_positive:
  assumes "safeParse (form_fields formData) = Inr d"
  shows "is_positive (times_js (amount d) (Fin 100))
       \<and> bound_amounts (emitted w (snd (createInvoice prevState formData w)))
           = [times_js (amount d) (Fin 100)]
       \<and> bound_amounts (emitted w (snd (updateInvoice i prevState formData w)))
           = [times_js (amount d) (Fin 100)]"
proof -
  from assms have "parse_amount (raw_amount (form_fields formData)) = Inr (amount d)"
    by (auto simp: safeParse_Inr)
  then have "is_positive (times_js (amount d) (Fin 100))" by (rule cents_positive)
  moreover have "bound_amounts (emitted w (snd (createInvoice prevState formData w)))
           = [times_js (amount d) (Fin 100)]"
    using createInvoice_valid(2) [OF assms refl, where w = w and prevState = prevState]
    by simp
  moreover have "bound_amounts (emitted w (snd (updateInvoice i prevState formData w)))
           = [times_js (amount d) (Fin 100)]"
    using updateInvoice_valid(2) [OF assms refl, where w = w and i = i and prevState = prevState]
    by simp
  ultimately show ?thesis by simp
qed

text \<open>
  Claim C2 (corrected). The spec: deleting an identifier that has no matching invoice
  row reports a persistence failure, and neither hook runs. What holds: the action
  never redirects and always returns a message. A DELETE that matches no row is not
  an error for the database, so when the statement is executed the action returns
  \<open>Deleted Invoice.\<close>, leaves the table as it was and invalidates the cache once; only
  when the database refuses the statement does it return the failure message, with no
  hook.
\<close>

theorem deleteInvoice_no_match:
  assumes "\<forall>r \<in> set (invoices w). row_id r \<noteq> i"
  shows "deleteInvoice i w =
     (if rejects w (DeleteInvoice i)
      then (Returned \<lparr>errors = None, message = Some ''Database Error: Failed to Delete Invoice.''\<rparr>,
            w\<lparr>trace := trace w @ [Query (DeleteInvoice i), ConsoleError]\<rparr>)
      else (Returned \<lparr>errors = None, message = Some ''Deleted Invoice.''\<rparr>,
            w\<lparr>trace := trace w @ [Query (DeleteInvoice i), RevalidatePath ''/dashboard/invoices'']\<rparr>))"
  using delete_no_match [OF assms]
  by (simp add: deleteInvoice_def sql_def Let_def emit_def revalidatePath_def)

theorem deleteInvoice_no_match_witness:
  "deleteInvoice unknown_id down_world =
     (Returned \<lparr>errors = None, message = Some ''Database Error: Failed to Delete Invoice.''\<rparr>,
      down_world\<lparr>trace := [Query (DeleteInvoice unknown_id), ConsoleError]\<rparr>)
   \<and> fst (deleteInvoice unknown_id idle_world) =
       Returned \<lparr>errors = None, message = Some ''Deleted Invoice.''\<rparr>"
  using deleteInvoice_no_match [of down_world unknown_id]
        deleteInvoice_no_match [of idle_world unknown_id]
  by (simp add: down_world_def idle_world_def known_id_def unknown_id_def)

text \<open>
  On a database that holds one invoice and executes every statement, deleting another
  identifier returns the success message and invalidates the cache.
\<close>

theorem delete_missing_reports_success:
  "map row_id (invoices idle_world) = [known_id] \<and> known_id \<noteq> unknown_id
   \<and> fst (deleteInvoice unknown_id idle_world)
       = Returned \<lparr>errors = None, message = Some ''Deleted Invoice.''\<rparr>
   \<and> emitted idle_world (snd (deleteInvoice unknown_id idle_world))
       = [Query (DeleteInvoice unknown_id), RevalidatePath ''/dashboard/invoices'']"
  by (simp add: deleteInvoice_result idle_world_def known_id_def unknown_id_def)

text \<open>
  Claim C3 (corrected). The spec: for create, update and delete, a successful
  persistence step is followed by the cache invalidation and then the redirect, and a
  failed validation or persistence step by neither, the caller receiving the error
  result. What holds: that is so for create and update. Delete never redirects: when
  its statement is executed it invalidates the cache and returns \<open>Deleted Invoice.\<close>;
  when the statement is refused it calls no hook and returns the failure message.
\<close>

theorem mutation_hooks:
  "(case safeParse (form_fields formData) of
      Inl errs \<Rightarrow>
        createInvoice prevState formData w =
          (Returned \<lparr>errors = Some errs,
                     message = Some ''Missing Fields. Failed to Create Invoice.''\<rparr>, w)
        \<and> updateInvoice i prevState formData w =
          (Returned \<lparr>errors = Some errs,
                     message = Some ''Missing Fields. Failed to Update Invoice.''\<rparr>, w)
    | Inr d \<Rightarrow>
        (let ins = InsertInvoice (customerId d) (times_js (amount d) (Fin 100)) (status d)
                     (takeWhile (\<lambda>c. c \<noteq> CHR ''T'') (now w));
             upd = UpdateInvoice (customerId d) (times_js (amount d) (Fin 100)) (status d) i
         in fst (createInvoice prevState formData w) =
              (if rejects w ins
               then Returned \<lparr>errors = None,
                               message = Some ''Database Error: Failed to Create Invoice.''\<rparr>
               else Redirected ''/dashboard/invoices'')
          \<and> hooks (emitted w (snd (createInvoice prevState formData w))) =
              (if rejects w ins then []
               else [RevalidatePath ''/dashboard/invoices'', Redirect ''/dashboard/invoices''])
          \<and> fst (updateInvoice i prevState formData w) =
              (if rejects w upd
               then Returned \<lparr>errors = None,
                               message = Some ''Database Error: Failed to Update Invoice.''\<rparr>
               else Redirected ''/dashboard/invoices'')
          \<and> hooks (emitted w (snd (updateInvoice i prevState formData w))) =
              (if rejects w upd then []
               else [RevalidatePath ''/dashboard/invoices'', Redirect ''/dashboard/invoices''])))
   \<and> fst (deleteInvoice i w) =
       (if rejects w (DeleteInvoice i)
        then Returned \<lparr>errors = None,
                        message = Some ''Database Error: Failed to Delete Invoice.''\<rparr>
        else Returned \<lparr>errors = None, message = Some ''Deleted Invoice.''\<rparr>)
   \<and> hooks (emitted w (snd (deleteInvoice i w))) =
       (if rejects w (DeleteInvoice i) then [] else [RevalidatePath ''/dashboard/invoices''])"
proof (cases "safeParse (form_fields formData)")
  case (Inl errs)
  then show ?thesis
    by (simp add: createInvoice_invalid updateInvoice_invalid deleteInvoice_result)
next
  case (Inr d)
  show ?thesis
    using createInvoice_valid [OF Inr refl, where w = w and prevState = prevState]
          updateInvoice_valid [OF Inr refl, where w = w and i = i and prevState = prevState]
    by (simp add: Inr Let_def deleteInvoice_result del: times_js.simps)
qed

theorem mutation_hooks_witness:
  "fst (createInvoice no_state (invoice_form ''10.50'') idle_world) = Redirected ''/dashboard/invoices''
   \<and> hooks (emitted idle_world (snd (createInvoice no_state (invoice_form ''10.50'') idle_world)))
       = [RevalidatePath ''/dashboard/invoices'', Redirect ''/dashboard/invoices'']
   \<and> fst (updateInvoice known_id no_state (invoice_form ''10.50'') down_world)
       = Returned \<lparr>errors = None, message = Some ''Database Error: Failed to Update Invoice.''\<rparr>
   \<and> hooks (emitted down_world (snd (updateInvoice known_id no_state (invoice_form ''10.50'') down_world)))
       = []
   \<and> createInvoice no_state (invoice_form ''0'') idle_world =
       (Returned \<lparr>errors = Some [''amount'' \<mapsto> [''Please enter an amount greater than $0.'']],
                  message = Some ''Missing Fields. Failed to Create Invoice.''\<rparr>, idle_world)
   \<and> hooks (emitted down_world (snd (deleteInvoice known_id down_world))) = []"
  using mutation_hooks [where formData = "invoice_form ''10.50''" and w = idle_world
          and prevState = no_state and i = known_id]
        mutation_hooks [where formData = "invoice_form ''10.50''" and w = down_world
          and prevState = no_state and i = known_id]
        mutation_hooks [where formData = "invoice_form ''0''" and w = idle_world
          and prevState = no_state and i = known_id]
  by (simp add: safeParse_10_50 safeParse_0 Let_def idle_world_def down_world_def
        del: times_js.simps)

text \<open>
  Deleting the invoice that exists succeeds: the row is gone, the cache is invalidated,
  and no redirect follows.
\<close>

theorem delete_success_no_redirect:
  "invoices (snd (deleteInvoice known_id idle_world)) = []
   \<and> fst (deleteInvoice known_id idle_world)
       = Returned \<lparr>errors = None, message = Some ''Deleted Invoice.''\<rparr>
   \<and> hooks (emitted idle_world (snd (deleteInvoice known_id idle_world)))
       = [RevalidatePath ''/dashboard/invoices'']"
  by (simp add: deleteInvoice_result)
     (simp add: deleteInvoice_def sql_def Let_def emit_def revalidatePath_def idle_world_def)

text \<open>
  Claim C4. The login action returns \<open>Invalid credentials.\<close> exactly when \<open>signIn\<close>
  throws an \<open>AuthError\<close> of type \<open>CredentialsSignin\<close>, returns \<open>Something went wrong.\<close>
  for an \<open>AuthError\<close> of any other type, and rethrows every error that is not an
  \<open>AuthError\<close>. It holds for every behaviour of \<open>signIn\<close>.
\<close>

theorem authenticate_messages:
  "(fst (authenticate signIn prevState formData w) = Returns (Some ''Invalid credentials.'')
      \<longleftrightarrow> fst (signIn ''credentials'' formData w) = Throws (AuthError ''CredentialsSignin''))
   \<and> (\<forall>t. fst (signIn ''credentials'' formData w) = Throws (AuthError t) \<and> t \<noteq> ''CredentialsSignin''
         \<longrightarrow> fst (authenticate signIn prevState formData w) = Returns (Some ''Something went wrong.''))
   \<and> (\<forall>e. fst (signIn ''credentials'' formData w) = Throws e \<and> (\<forall>t. e \<noteq> AuthError t)
         \<longrightarrow> fst (authenticate signIn prevState formData w) = Throws e)"
  by (auto simp: authenticate_def split: prod.splits outcome.splits js_error.splits)

theorem authenticate_messages_witness:
  "fst (authenticate (\<lambda>p f w. (Throws (AuthError ''CredentialsSignin''), w)) None [] idle_world)
     = Returns (Some ''Invalid credentials.'')
   \<and> fst (authenticate (\<lambda>p f w. (Throws (AuthError ''CallbackRouteError''), w)) None [] idle_world)
     = Returns (Some ''Something went wrong.'')
   \<and> fst (authenticate (\<lambda>p f w. (Throws (Error ''NEXT_REDIRECT''), w)) None [] idle_world)
     = Throws (Error ''NEXT_REDIRECT'')"
  using authenticate_messages [where signIn = "\<lambda>p f w. (Throws (AuthError ''CredentialsSignin''), w)"
          and prevState = None and formData = "[]" and w = idle_world]
        authenticate_messages [where signIn = "\<lambda>p f w. (Throws (AuthError ''CallbackRouteError''), w)"
          and prevState = None and formData = "[]" and w = idle_world]
        authenticate_messages [where signIn = "\<lambda>p f w. (Throws (Error ''NEXT_REDIRECT''), w)"
          and prevState = None and formData = "[]" and w = idle_world]
  by simp

text \<open>
  What \<open>signIn\<close> is given in the claim's example: for a stored user and a password that
  does not match, \<open>authorize\<close> looks the user up and returns \<open>null\<close>.
\<close>

lemma authorize_wrong_password:
  assumes "get credentials ''email'' = Some (Str email)"
    and "get credentials ''password'' = Some (Str password)"
    and "is_email email" and "6 \<le> length password"
    and "\<not> rejects w (SelectUser email)"
    and "filter (\<lambda>u. user_email u = email) (users w) = u # us"
    and "\<not> bcrypt_compare password (user_password u)"
  shows "authorize is_email bcrypt_compare credentials w
           = (Returns None,
              emit (ConsoleLog ''Invalid credentials'') (emit (Query (SelectUser email)) w))"
proof -
  have p: "parse_credentials is_email credentials = Some (email, password)"
    using assms by (simp add: parse_credentials_def)
  have s: "sql (SelectUser email) w = (True, emit (Query (SelectUser email)) w)"
    using assms(5) by (intro sql_select) (simp_all add: emit_def)
  have "getUser email w = (Returns (Some u), emit (Query (SelectUser email)) w)"
    using assms(6) by (simp add: getUser_def s emit_def)
  then show ?thesis
    using assms(7) by (simp add: authorize_def p)
qed

text \<open>
  Claim C5. For every form whose amount does not convert to a number, or converts to
  a value less than or equal to zero, validation fails with a non-empty list of
  messages under the key \<open>amount\<close>, and the create and update actions return those
  errors and leave the world as it was: no statement is sent.
\<close>

theorem invalid_amount_rejected:
  assumes "Number (get formData ''amount'') = NaN \<or> le_js (Number (get formData ''amount'')) (Fin 0)"
  shows "\<exists>errs msg.
           safeParse (form_fields formData) = Inl errs
         \<and> errs ''amount'' = Some [msg] \<and> msg \<noteq> []
         \<and> createInvoice prevState formData w =
             (Returned \<lparr>errors = Some errs,
                        message = Some ''Missing Fields. Failed to Create Invoice.''\<rparr>, w)
         \<and> updateInvoice i prevState formData w =
             (Returned \<lparr>errors = Some errs,
                        message = Some ''Missing Fields. Failed to Update Invoice.''\<rparr>, w)
         \<and> emitted w (snd (createInvoice prevState formData w)) = []
         \<and> emitted w (snd (updateInvoice i prevState formData w)) = []"
proof -
  have "raw_amount (form_fields formData) = get formData ''amount''"
    by (simp add: form_fields_def)
  then obtain msg where m: "parse_amount (raw_amount (form_fields formData)) = Inl msg"
    using parse_amount_rejects [OF assms] by auto
  then have ne: "msg \<noteq> []"
    by (auto simp: parse_amount_def Let_def split: if_splits)
  obtain errs where e: "safeParse (form_fields formData) = Inl errs" "errs ''amount'' = Some [msg]"
    using safeParse_amount_error [OF m] by blast
  show ?thesis
    using e ne
    by (intro exI [of _ errs] exI [of _ msg])
       (simp add: createInvoice_invalid updateInvoice_invalid emitted_self)
qed

theorem invalid_amount_rejected_witness:
  "\<exists>errs msg.
     safeParse (form_fields (invoice_form ''0'')) = Inl errs
   \<and> errs ''amount'' = Some [msg] \<and> msg \<noteq> []
   \<and> createInvoice no_state (invoice_form ''0'') idle_world =
       (Returned \<lparr>errors = Some errs,
                  message = Some ''Missing Fields. Failed to Create Invoice.''\<rparr>, idle_world)
   \<and> updateInvoice known_id no_state (invoice_form ''0'') idle_world =
       (Returned \<lparr>errors = Some errs,
                  message = Some ''Missing Fields. Failed to Update Invoice.''\<rparr>, idle_world)
   \<and> emitted idle_world (snd (createInvoice no_state (invoice_form ''0'') idle_world)) = []
   \<and> emitted idle_world (snd (updateInvoice known_id no_state (invoice_form ''0'') idle_world)) = []"
  by (rule invalid_amount_rejected) (simp add: invoice_form_def get_def Number_0)

text \<open>
  Claim C6 (corrected). The spec: on the input
  \<open>{customerId: "abc", amount: "10.50", status: "pending"}\<close> validation succeeds and the
  amount persisted is exactly the integer 1050; on input with amount \<open>"0"\<close> validation
  fails with exactly the error mapping
  \<open>{amount: ["Please enter an amount greater than $0."]}\<close>. What holds: on the first
  input validation succeeds and the create action sends one INSERT that binds the
  integer 1050; when the database executes it the table gains one row whose amount is
  1050, and when the database refuses it the table is unchanged. On every input with
  amount \<open>"0"\<close> validation fails and the entry under \<open>amount\<close> is exactly that list; the
  mapping as a whole is exactly \<open>{amount: [...]}\<close> if and only if \<open>customerId\<close> is a string
  and \<open>status\<close> is \<open>pending\<close> or \<open>paid\<close>. The input \<open>{amount: "0"}\<close> alone also gets the
  entries of the two missing fields, as the counterexample after the theorem shows.
\<close>

theorem example_amounts:
  "safeParse (form_fields [(''customerId'', Str ''abc''), (''amount'', Str ''10.50''),
                           (''status'', Str ''pending'')])
     = Inr \<lparr>customerId = ''abc'', amount = Fin (21 / 2), status = ''pending''\<rparr>
   \<and> (let formData = [(''customerId'', Str ''abc''), (''amount'', Str ''10.50''),
                       (''status'', Str ''pending'')];
            date = takeWhile (\<lambda>c. c \<noteq> CHR ''T'') (now w);
            ins = InsertInvoice ''abc'' (Fin 1050) ''pending'' date;
            w' = snd (createInvoice prevState formData w)
        in emitted w w' =
             (if rejects w ins then [Query ins]
              else [Query ins, RevalidatePath ''/dashboard/invoices'',
                    Redirect ''/dashboard/invoices''])
         \<and> invoices w' =
             (if rejects w ins then invoices w
              else invoices w @
                     [\<lparr>row_id = new_ids w (length (invoices w)), row_customer_id = ''abc'',
                       row_amount = Fin 1050, row_status = ''pending'', row_date = date\<rparr>]))
   \<and> is_positive_integer (Fin 1050)
   \<and> (get formData ''amount'' = Some (Str ''0'') \<longrightarrow>
        (\<exists>errs. safeParse (form_fields formData) = Inl errs
           \<and> errs ''amount'' = Some [''Please enter an amount greater than $0.'']
           \<and> (errs = [''amount'' \<mapsto> [''Please enter an amount greater than $0.'']]
                \<longleftrightarrow> (\<exists>c. get formData ''customerId'' = Some (Str c))
                  \<and> (get formData ''status'' = Some (Str ''pending'')
                       \<or> get formData ''status'' = Some (Str ''paid'')))))"
proof -
  let ?msg = "''Please enter an amount greater than $0.''"
  let ?form = "[(''customerId'', Str ''abc''), (''amount'', Str ''10.50''),
                (''status'', Str ''pending'')]"
  have valid: "safeParse (form_fields ?form)
     = Inr \<lparr>customerId = ''abc'', amount = Fin (21 / 2), status = ''pending''\<rparr>"
    using safeParse_10_50 by (simp add: invoice_form_def)
  have sent: "emitted w (snd (createInvoice prevState ?form w)) =
      (if rejects w (InsertInvoice ''abc'' (Fin 1050) ''pending''
                       (takeWhile (\<lambda>c. c \<noteq> CHR ''T'') (now w)))
       then [Query (InsertInvoice ''abc'' (Fin 1050) ''pending''
                       (takeWhile (\<lambda>c. c \<noteq> CHR ''T'') (now w)))]
       else [Query (InsertInvoice ''abc'' (Fin 1050) ''pending''
                       (takeWhile (\<lambda>c. c \<noteq> CHR ''T'') (now w))),
             RevalidatePath ''/dashboard/invoices'', Redirect ''/dashboard/invoices''])"
    using createInvoice_valid(2) [OF valid refl, where w = w and prevState = prevState]
    by (simp add: cents_10_50 del: times_js.simps)
  have rows: "invoices (snd (createInvoice prevState ?form w)) =
      (if rejects w (InsertInvoice ''abc'' (Fin 1050) ''pending''
                       (takeWhile (\<lambda>c. c \<noteq> CHR ''T'') (now w)))
       then invoices w
       else invoices w @
              [\<lparr>row_id = new_ids w (length (invoices w)), row_customer_id = ''abc'',
                row_amount = Fin 1050, row_status = ''pending'',
                row_date = takeWhile (\<lambda>c. c \<noteq> CHR ''T'') (now w)\<rparr>])"
    using createInvoice_rows [OF valid refl, where w = w and prevState = prevState]
    by (simp add: cents_10_50 del: times_js.simps)
  have zero: "get formData ''amount'' = Some (Str ''0'') \<Longrightarrow>
        \<exists>errs. safeParse (form_fields formData) = Inl errs
           \<and> errs ''amount'' = Some [?msg]
           \<and> (errs = [''amount'' \<mapsto> [?msg]]
                \<longleftrightarrow> (\<exists>c. get formData ''customerId'' = Some (Str c))
                  \<and> (get formData ''status'' = Some (Str ''pending'')
                       \<or> get formData ''status'' = Some (Str ''paid'')))"
  proof -
    assume a: "get formData ''amount'' = Some (Str ''0'')"
    let ?errs = "field_error ''status'' (parse_status (get formData ''status''))
                   (field_error ''amount'' (Inl ?msg :: string + jsnum)
                     (field_error ''customerId'' (parse_customerId (get formData ''customerId''))
                        Map.empty))"
    have pa: "parse_amount (raw_amount (form_fields formData)) = Inl ?msg"
      using a by (simp add: form_fields_def parse_amount_def Number_0)
    have p: "safeParse (form_fields formData) = Inl ?errs"
      using safeParse_Inl [OF pa] by (simp add: form_fields_def)
    have k: "?errs ''amount'' = Some [?msg]"
      by (simp add: field_error_def split: sum.splits)
    have e: "?errs = [''amount'' \<mapsto> [?msg]]
                \<longleftrightarrow> (\<exists>c. get formData ''customerId'' = Some (Str c))
                  \<and> (get formData ''status'' = Some (Str ''pending'')
                       \<or> get formData ''status'' = Some (Str ''paid''))"
      unfolding only_amount_error parse_customerId_Inr parse_status_Inr ..
    show ?thesis
      using p k e by blast
  qed
  show ?thesis
    using valid sent rows zero
    by (simp add: Let_def is_positive_integer_def)
qed

theorem example_amounts_witness:
  "invoices (snd (createInvoice no_state
       [(''customerId'', Str ''abc''), (''amount'', Str ''10.50''), (''status'', Str ''pending'')]
       idle_world))
     = invoices idle_world @
         [\<lparr>row_id = unknown_id, row_customer_id = ''abc'', row_amount = Fin 1050,
           row_status = ''pending'', row_date = ''2024-05-01''\<rparr>]
   \<and> (\<exists>errs. safeParse (form_fields [(''customerId'', Str ''abc''), (''amount'', Str ''0''),
                                    (''status'', Str ''pending'')]) = Inl errs
        \<and> errs = [''amount'' \<mapsto> [''Please enter an amount greater than $0.'']])
   \<and> (\<exists>errs. safeParse (form_fields [(''amount'', Str ''0'')]) = Inl errs
        \<and> errs ''amount'' = Some [''Please enter an amount greater than $0.'']
        \<and> errs \<noteq> [''amount'' \<mapsto> [''Please enter an amount greater than $0.'']])"
proof -
  have rows: "invoices (snd (createInvoice no_state
       [(''customerId'', Str ''abc''), (''amount'', Str ''10.50''), (''status'', Str ''pending'')]
       idle_world))
     = invoices idle_world @
         [\<lparr>row_id = unknown_id, row_customer_id = ''abc'', row_amount = Fin 1050,
           row_status = ''pending'', row_date = ''2024-05-01''\<rparr>]"
    using example_amounts [where w = idle_world and prevState = no_state and formData = "[]"]
    by (simp add: Let_def idle_world_def)
  have full: "\<exists>errs. safeParse (form_fields [(''customerId'', Str ''abc''), (''amount'', Str ''0''),
                                    (''status'', Str ''pending'')]) = Inl errs
        \<and> errs = [''amount'' \<mapsto> [''Please enter an amount greater than $0.'']]"
    using example_amounts [where formData = "[(''customerId'', Str ''abc''), (''amount'', Str ''0''),
                           (''status'', Str ''pending'')]"]
    by (simp add: get_def)
  have alone: "\<exists>errs. safeParse (form_fields [(''amount'', Str ''0'')]) = Inl errs
        \<and> errs ''amount'' = Some [''Please enter an amount greater than $0.'']
        \<and> errs \<noteq> [''amount'' \<mapsto> [''Please enter an amount greater than $0.'']]"
    using example_amounts [where formData = "[(''amount'', Str ''0'')]"]
    by (simp add: get_def)
  show ?thesis using rows full alone by blast
qed

text \<open>
  On the input \<open>{amount: "0"}\<close> alone the error mapping has three entries, so it is not
  \<open>{amount: [...]}\<close>.
\<close>

theorem amount_zero_alone_three_keys:
  "safeParse (form_fields [(''amount'', Str ''0'')])
     = Inl [''customerId'' \<mapsto> [''Please select a customer.''],
            ''amount'' \<mapsto> [''Please enter an amount greater than $0.''],
            ''status'' \<mapsto> [''Please select an invoice status.'']]
   \<and> [''customerId'' \<mapsto> [''Please select a customer.''],
       ''amount'' \<mapsto> [''Please enter an amount greater than $0.''],
       ''status'' \<mapsto> [''Please select an invoice status.'']] ''status''
       = Some [''Please select an invoice status.'']
   \<and> [''amount'' \<mapsto> [''Please enter an amount greater than $0.'']] ''status'' = None
   \<and> safeParse (form_fields [(''amount'', Str ''0'')])
       \<noteq> Inl [''amount'' \<mapsto> [''Please enter an amount greater than $0.'']]"
proof -
  have p: "safeParse (form_fields [(''amount'', Str ''0'')])
     = Inl [''customerId'' \<mapsto> [''Please select a customer.''],
            ''amount'' \<mapsto> [''Please enter an amount greater than $0.''],
            ''status'' \<mapsto> [''Please select an invoice status.'']]"
    by (simp add: form_fields_def get_def safeParse_def parse_amount_def Number_0 field_error_def)
  have "[''customerId'' \<mapsto> [''Please select a customer.''],
         ''amount'' \<mapsto> [''Please enter an amount greater than $0.''],
         ''status'' \<mapsto> [''Please select an invoice status.'']]
        \<noteq> [''amount'' \<mapsto> [''Please enter an amount greater than $0.'']]"
    using only_amount_error [where s = "Inl ''Please select an invoice status.''"
            and c = "Inl ''Please select a customer.''"
            and msg = "''Please enter an amount greater than $0.''"]
    by (simp add: field_error_def)
  then show ?thesis using p by simp
qed

text \<open>
  Claim C7. For every status value that is not exactly the string \<open>pending\<close> or the
  string \<open>paid\<close> (another string, a file, or no value at all), validation fails,
  with a message under the key \<open>status\<close>.
\<close>

theorem status_outside_enum_rejected:
  assumes "raw_status raw \<noteq> Some (Str ''pending'')" and "raw_status raw \<noteq> Some (Str ''paid'')"
  shows "\<exists>errs msg. safeParse raw = Inl errs \<and> errs ''status'' = Some [msg]"
proof -
  obtain msg where m: "parse_status (raw_status raw) = Inl msg"
    using assms by (cases "raw_status raw" rule: parse_status.cases) auto
  show ?thesis
    unfolding safeParse_def using m
    by (auto simp: field_error_def split: sum.splits)
qed

theorem status_outside_enum_rejected_witness:
  "\<exists>errs msg. safeParse \<lparr>raw_customerId = Some (Str ''abc''), raw_amount = Some (Str ''10.50''),
        raw_status = Some (Str ''draft'')\<rparr> = Inl errs \<and> errs ''status'' = Some [msg]"
  by (rule status_outside_enum_rejected) simp_all

text \<open>
  Claim C8 (corrected). The spec: for every invoice identifier with no matching row,
  requesting the edit page renders the dedicated not-found view, not the generic
  catch-all error boundary; for identifiers with a matching row the edit page renders
  normally. What holds: the page awaits both fetches before it looks at the invoice,
  and an error of either propagates. So the route shows the error boundary whenever
  the database refuses the invoice query, and what the error of a failed customers
  fetch leads to otherwise; only when both fetches return does an identifier with no
  matching row give the not-found view and one with a matching row the edit form of
  that row.
\<close>

theorem edit_page_view:
  "route_view (fst (Page fetchCustomers i w)) =
     (if rejects w (SelectInvoice i) then ErrorBoundaryView
      else case fst (fetchCustomers (emit (Query (SelectInvoice i)) w)) of
             Throws e \<Rightarrow> (if e = NotFoundError then NotFoundView else ErrorBoundaryView)
           | Returns cs \<Rightarrow>
               (case find (\<lambda>r. row_id r = i) (invoices w) of
                  None \<Rightarrow> NotFoundView
                | Some r \<Rightarrow> PageView (EditForm r cs)))
   \<and> (find (\<lambda>r. row_id r = i) (invoices w) = None
        \<longleftrightarrow> (\<forall>r \<in> set (invoices w). row_id r \<noteq> i))"
proof -
  have v: "route_view (fst (Page fetchCustomers i w)) =
     (if rejects w (SelectInvoice i) then ErrorBoundaryView
      else case fst (fetchCustomers (emit (Query (SelectInvoice i)) w)) of
             Throws e \<Rightarrow> (if e = NotFoundError then NotFoundView else ErrorBoundaryView)
           | Returns cs \<Rightarrow>
               (case find (\<lambda>r. row_id r = i) (invoices w) of
                  None \<Rightarrow> NotFoundView
                | Some r \<Rightarrow> PageView (EditForm r cs)))"
  proof (cases "rejects w (SelectInvoice i)")
    case True
    then have "fetchInvoiceById i w
                 = (Throws (Error ''Failed to fetch invoice.''), emit (Query (SelectInvoice i)) w)"
      by (simp add: fetchInvoiceById_def sql_def Let_def)
    then show ?thesis using True by (simp add: Page_def split_beta)
  next
    case False
    then have s: "sql (SelectInvoice i) w = (True, emit (Query (SelectInvoice i)) w)"
      by (intro sql_select) (simp_all add: emit_def)
    have f: "fetchInvoiceById i w
             = (Returns (find (\<lambda>r. row_id r = i) (invoices w)), emit (Query (SelectInvoice i)) w)"
      by (simp add: fetchInvoiceById_def s emit_def)
    show ?thesis
    proof (cases "fst (fetchCustomers (emit (Query (SelectInvoice i)) w))")
      case (Returns cs)
      then show ?thesis
        using False by (simp add: Page_def f split_beta split: option.splits)
    next
      case (Throws e)
      then show ?thesis
        using False by (cases e) (simp_all add: Page_def f split_beta)
    qed
  qed
  have "find (\<lambda>r. row_id r = i) (invoices w) = None
        \<longleftrightarrow> (\<forall>r \<in> set (invoices w). row_id r \<noteq> i)"
    by (auto simp: find_None_iff)
  then show ?thesis using v by simp
qed

theorem edit_page_view_witness:
  "route_view (fst (Page customers_found unknown_id idle_world)) = NotFoundView
   \<and> route_view (fst (Page customers_found known_id idle_world))
       = PageView (EditForm \<lparr>row_id = known_id, row_customer_id = ''abc'', row_amount = Fin 1050,
                             row_status = ''pending'', row_date = ''2024-04-30''\<rparr> [''abc''])
   \<and> route_view (fst (Page customers_found known_id down_world)) = ErrorBoundaryView
   \<and> route_view (fst (Page customers_failed known_id idle_world)) = ErrorBoundaryView"
proof -
  have a: "route_view (fst (Page customers_found unknown_id idle_world)) = NotFoundView"
    using edit_page_view [where w = idle_world and i = unknown_id
            and fetchCustomers = customers_found]
    by (simp add: idle_world_def known_id_def unknown_id_def customers_found_def)
  have b: "route_view (fst (Page customers_found known_id idle_world))
       = PageView (EditForm \<lparr>row_id = known_id, row_customer_id = ''abc'', row_amount = Fin 1050,
                             row_status = ''pending'', row_date = ''2024-04-30''\<rparr> [''abc''])"
    using edit_page_view [where w = idle_world and i = known_id
            and fetchCustomers = customers_found]
    by (simp add: idle_world_def customers_found_def)
  have c: "route_view (fst (Page customers_found known_id down_world)) = ErrorBoundaryView"
    using edit_page_view [where w = down_world and i = known_id
            and fetchCustomers = customers_found]
    by (simp add: down_world_def)
  have d: "route_view (fst (Page customers_failed known_id idle_world)) = ErrorBoundaryView"
    using edit_page_view [where w = idle_world and i = known_id
            and fetchCustomers = customers_failed]
    by (simp add: idle_world_def customers_failed_def)
  show ?thesis using a b c d by simp
qed

text \<open>
  An identifier with no matching row gets the error boundary, not the not-found view,
  when the database refuses the invoice query, and also when the query is executed
  but the customers fetch fails.
\<close>

theorem missing_invoice_error_boundary:
  "map row_id (invoices down_world) = [known_id]
   \<and> map row_id (invoices idle_world) = [known_id]
   \<and> known_id \<noteq> unknown_id
   \<and> route_view (fst (Page customers_found unknown_id down_world)) = ErrorBoundaryView
   \<and> route_view (fst (Page customers_failed unknown_id idle_world)) = ErrorBoundaryView"
proof -
  have ids: "map row_id (invoices down_world) = [known_id]
      \<and> map row_id (invoices idle_world) = [known_id] \<and> known_id \<noteq> unknown_id"
    by (simp add: idle_world_def down_world_def known_id_def unknown_id_def)
  have down: "route_view (fst (Page customers_found unknown_id down_world)) = ErrorBoundaryView"
    by (simp add: Page_def fetchInvoiceById_def sql_def Let_def split_beta down_world_def)
  have failed: "route_view (fst (Page customers_failed unknown_id idle_world)) = ErrorBoundaryView"
    by (simp add: Page_def fetchInvoiceById_def sql_def Let_def split_beta idle_world_def
          customers_failed_def)
  show ?thesis using ids down failed by simp
qed

text \<open>
  Claim C9. \<open>ErrorMessages\<close> renders one paragraph per string of \<open>errors[id]\<close>, in the
  same order, inside the container \<open>id-error\<close>; when \<open>errors\<close> is undefined or has no
  entry for \<open>id\<close> the container is empty. It is a total function: no input makes it
  throw.
\<close>

theorem ErrorMessages_paragraphs:
  "(errs = Some e \<and> e key = Some msgs \<longrightarrow>
      ErrorMessages errs key = Div (key @ ''-error'') (map P msgs))
   \<and> (errs = None \<or> (\<exists>e. errs = Some e \<and> e key = None) \<longrightarrow>
      ErrorMessages errs key = Div (key @ ''-error'') [])"
  by (auto simp: ErrorMessages_def)

theorem ErrorMessages_paragraphs_witness:
  "ErrorMessages (Some [''amount'' \<mapsto> [''too small'', ''not a number'']]) ''amount''
     = Div ''amount-error'' [P ''too small'', P ''not a number'']
   \<and> ErrorMessages None ''amount'' = Div ''amount-error'' []
   \<and> ErrorMessages (Some [''amount'' \<mapsto> [''too small'']]) ''status'' = Div ''status-error'' []"
  using ErrorMessages_paragraphs [where errs = "Some [''amount'' \<mapsto> [''too small'', ''not a number'']]"
          and e = "[''amount'' \<mapsto> [''too small'', ''not a number'']]" and key = "''amount''"
          and msgs = "[''too small'', ''not a number'']"]
        ErrorMessages_paragraphs [where errs = None and key = "''amount''"]
        ErrorMessages_paragraphs [where errs = "Some [''amount'' \<mapsto> [''too small'']]"
          and key = "''status''"]
  by simp



end
